theory Spec2Isabelle
  imports Complex_Main "HOL-Library.Word"
begin

section \<open>Road classification (extractor/guidance classification data)\<close>

subsection \<open>Road priority classes\<close>

text \<open>
  \<open>RoadPriorityClass::Enum\<close> is \<open>std::uint8_t\<close>; the constants are those of the
  namespace, with their values.
\<close>

type_synonym Enum = "8 word"

definition MOTORWAY :: Enum where "MOTORWAY = 0"
definition MOTORWAY_LINK :: Enum where "MOTORWAY_LINK = 1"
definition TRUNK :: Enum where "TRUNK = 2"
definition TRUNK_LINK :: Enum where "TRUNK_LINK = 3"
definition PRIMARY :: Enum where "PRIMARY = 4"
definition PRIMARY_LINK :: Enum where "PRIMARY_LINK = 5"
definition SECONDARY :: Enum where "SECONDARY = 6"
definition SECONDARY_LINK :: Enum where "SECONDARY_LINK = 7"
definition TERTIARY :: Enum where "TERTIARY = 8"
definition TERTIARY_LINK :: Enum where "TERTIARY_LINK = 9"
definition MAIN_RESIDENTIAL :: Enum where "MAIN_RESIDENTIAL = 10"
definition SIDE_RESIDENTIAL :: Enum where "SIDE_RESIDENTIAL = 11"
definition ALLEY :: Enum where "ALLEY = 12"
definition PARKING :: Enum where "PARKING = 13"
definition LINK_ROAD :: Enum where "LINK_ROAD = 14"
definition BIKE_PATH :: Enum where "BIKE_PATH = 16"
definition FOOT_PATH :: Enum where "FOOT_PATH = 18"
definition CONNECTIVITY :: Enum where "CONNECTIVITY = 31"

subsection \<open>The packed class\<close>

text \<open>
  The class has three one-bit fields, a five-bit priority field and one byte for the number
  of lanes. Each bit-field is a word of its width, so that a store into it truncates as the
  C++ bit-field does.
\<close>

record RoadClassification =
  motorway_class :: "1 word"
  link_class :: "1 word"
  may_be_ignored :: "1 word"
  road_priority_class :: "5 word"
  number_of_lanes :: "8 word"

text \<open>The default constructor.\<close>

definition RoadClassification_default :: RoadClassification where
  "RoadClassification_default =
     \<lparr> motorway_class = 0, link_class = 0, may_be_ignored = 0,
       road_priority_class = ucast CONNECTIVITY, number_of_lanes = 0 \<rparr>"

text \<open>The five-argument constructor: the flags arrive as \<open>bool\<close>, the priority as a byte.\<close>

definition RoadClassification_of ::
  "bool \<Rightarrow> bool \<Rightarrow> bool \<Rightarrow> Enum \<Rightarrow> 8 word \<Rightarrow> RoadClassification" where
  "RoadClassification_of m l i p n =
     \<lparr> motorway_class = of_bool m, link_class = of_bool l, may_be_ignored = of_bool i,
       road_priority_class = ucast p, number_of_lanes = n \<rparr>"

definition IsMotorwayClass :: "RoadClassification \<Rightarrow> bool" where
  "IsMotorwayClass c = (motorway_class c \<noteq> 0)"

definition IsRampClass :: "RoadClassification \<Rightarrow> bool" where
  "IsRampClass c = (0 \<noteq> motorway_class c \<and> 0 \<noteq> link_class c)"

definition IsLinkClass :: "RoadClassification \<Rightarrow> bool" where
  "IsLinkClass c = (0 \<noteq> link_class c)"

definition IsLowPriorityRoadClass :: "RoadClassification \<Rightarrow> bool" where
  "IsLowPriorityRoadClass c = (0 \<noteq> may_be_ignored c)"

definition GetNumberOfLanes :: "RoadClassification \<Rightarrow> 8 word" where
  "GetNumberOfLanes c = number_of_lanes c"

text \<open>\<open>GetPriority\<close> widens the five-bit field to \<open>std::uint32_t\<close>.\<close>

definition GetPriority :: "RoadClassification \<Rightarrow> 32 word" where
  "GetPriority c = ucast (road_priority_class c)"

text \<open>\<open>GetClass\<close> reads the field as the byte-sized enumeration.\<close>

definition GetClass :: "RoadClassification \<Rightarrow> Enum" where
  "GetClass c = ucast (road_priority_class c)"

text \<open>\<open>operator==\<close> compares the four bit-fields and leaves the number of lanes out.\<close>

definition RoadClassification_eq :: "RoadClassification \<Rightarrow> RoadClassification \<Rightarrow> bool" where
  "RoadClassification_eq a b =
     (motorway_class a = motorway_class b \<and> link_class a = link_class b \<and>
      may_be_ignored a = may_be_ignored b \<and>
      road_priority_class a = road_priority_class b)"

subsection \<open>strictlyLess\<close>

text \<open>
  \<open>std::upper_bound\<close> over an array partitioned by the value: the position of the first
  element that the value is less than, the length when there is none. The iterator it
  returns is represented by its offset from the start of the array; the searched value is
  the 32-bit priority, each divider is widened to it for the comparison.
\<close>

fun upper_bound :: "Enum list \<Rightarrow> 32 word \<Rightarrow> nat" where
  "upper_bound [] v = 0"
| "upper_bound (d # ds) v = (if v < ucast d then 0 else Suc (upper_bound ds v))"

definition dividers :: "Enum list" where
  "dividers = [TRUNK_LINK, SECONDARY_LINK, SIDE_RESIDENTIAL, ALLEY, PARKING, CONNECTIVITY]"

definition strictlyLess :: "RoadClassification \<Rightarrow> RoadClassification \<Rightarrow> bool" where
  "strictlyLess lhs rhs =
     (let lhs_class = upper_bound dividers (GetPriority lhs);
          rhs_class = upper_bound dividers (GetPriority rhs)
      in lhs_class < rhs_class)"

subsection \<open>isLinkTo\<close>

definition isLinkTo :: "RoadClassification \<Rightarrow> RoadClassification \<Rightarrow> bool" where
  "isLinkTo link road =
     (if \<not> IsLinkClass link \<or> IsLinkClass road then False
      else if GetPriority link = ucast MOTORWAY_LINK then GetPriority road = ucast MOTORWAY
      else if GetPriority link = ucast TRUNK_LINK then GetPriority road = ucast TRUNK
      else if GetPriority link = ucast PRIMARY_LINK then GetPriority road = ucast PRIMARY
      else if GetPriority link = ucast SECONDARY_LINK then GetPriority road = ucast SECONDARY
      else if GetPriority link = ucast TERTIARY_LINK then GetPriority road = ucast TERTIARY
      else False)"

subsection \<open>obviousByRoadClass and its legacy variant\<close>

text \<open>
  \<open>PRIORITY_DISTINCTION_FACTOR\<close> is declared in \<open>extractor/guidance/constants.hpp\<close>, which
  is not among the sources at hand. It is the first parameter \<open>factor\<close> of both functions;
  the product with a priority is taken exactly.
\<close>

definition obviousByRoadClass ::
  "real \<Rightarrow> RoadClassification \<Rightarrow> RoadClassification \<Rightarrow> RoadClassification \<Rightarrow> bool" where
  "obviousByRoadClass factor in_classification obvious_candidate compare_candidate =
     (if IsMotorwayClass in_classification \<and> IsMotorwayClass obvious_candidate \<and>
         IsRampClass compare_candidate
      then True
      else
        let passing_ramp = (IsRampClass compare_candidate \<and>
                            \<not> IsMotorwayClass in_classification \<and>
                            \<not> IsRampClass in_classification)
        in
        if \<not> IsMotorwayClass in_classification \<and> \<not> IsMotorwayClass obvious_candidate \<and>
           \<not> IsLinkClass in_classification \<and> \<not> IsLinkClass obvious_candidate \<and>
           \<not> IsRampClass compare_candidate \<and> IsLinkClass compare_candidate
        then True
        else
          let has_high_priority =
                (factor * real (unat (GetPriority obvious_candidate))
                   < real (unat (GetPriority compare_candidate)) \<and>
                 \<not> IsRampClass compare_candidate);
              continues_on_same_class =
                RoadClassification_eq in_classification obvious_candidate
          in (has_high_priority \<and> continues_on_same_class \<and> \<not> passing_ramp) \<or>
             (\<not> IsLowPriorityRoadClass obvious_candidate \<and>
              \<not> IsLowPriorityRoadClass in_classification \<and>
              IsLowPriorityRoadClass compare_candidate))"

text \<open>
  The same function with the conjunct \<open>!passing_ramp\<close> removed from the returned expression,
  for comparison with the one above.
\<close>

definition obviousByRoadClass_without_passing_ramp ::
  "real \<Rightarrow> RoadClassification \<Rightarrow> RoadClassification \<Rightarrow> RoadClassification \<Rightarrow> bool" where
  "obviousByRoadClass_without_passing_ramp factor in_classification obvious_candidate
       compare_candidate =
     (if IsMotorwayClass in_classification \<and> IsMotorwayClass obvious_candidate \<and>
         IsRampClass compare_candidate
      then True
      else
        if \<not> IsMotorwayClass in_classification \<and> \<not> IsMotorwayClass obvious_candidate \<and>
           \<not> IsLinkClass in_classification \<and> \<not> IsLinkClass obvious_candidate \<and>
           \<not> IsRampClass compare_candidate \<and> IsLinkClass compare_candidate
        then True
        else
          let has_high_priority =
                (factor * real (unat (GetPriority obvious_candidate))
                   < real (unat (GetPriority compare_candidate)) \<and>
                 \<not> IsRampClass compare_candidate);
              continues_on_same_class =
                RoadClassification_eq in_classification obvious_candidate
          in (has_high_priority \<and> continues_on_same_class) \<or>
             (\<not> IsLowPriorityRoadClass obvious_candidate \<and>
              \<not> IsLowPriorityRoadClass in_classification \<and>
              IsLowPriorityRoadClass compare_candidate))"

text \<open>
  In the legacy variant a link-class road counts with the priority \<open>LINK_ROAD\<close>; the
  conditional has the type of \<open>GetPriority\<close>, so the constant is widened to 32 bits.
\<close>

definition obviousByRoadClassOld ::
  "real \<Rightarrow> RoadClassification \<Rightarrow> RoadClassification \<Rightarrow> RoadClassification \<Rightarrow> bool" where
  "obviousByRoadClassOld factor in_classification obvious_candidate compare_candidate =
     (let first_priority = (if IsLinkClass obvious_candidate then ucast LINK_ROAD
                            else GetPriority obvious_candidate);
          second_priority = (if IsLinkClass compare_candidate then ucast LINK_ROAD
                             else GetPriority compare_candidate);
          has_high_priority =
            (factor * real (unat first_priority) < real (unat second_priority));
          continues_on_same_class =
            RoadClassification_eq in_classification obvious_candidate
      in (has_high_priority \<and> continues_on_same_class) \<or>
         (\<not> IsLowPriorityRoadClass obvious_candidate \<and>
          \<not> IsLowPriorityRoadClass in_classification \<and>
          IsLowPriorityRoadClass compare_candidate))"

section \<open>The dispatcher (Library/OSRM.cpp)\<close>

subsection \<open>Requests, replies and plugins\<close>

text \<open>
  The headers of the request, the reply and the plugin base class are not among the sources
  at hand; what the dispatcher uses of them is kept: the \<open>service\<close> name of a request, the
  \<open>status\<close> of a reply next to its content, and the two virtual functions of a plugin. The
  plugin-specific parameters of a request are opaque to the dispatcher and are a type
  parameter.
\<close>

datatype status_type = ok | badRequest | otherStatus nat

record Reply =
  status :: status_type
  content :: string

record 'p RouteParameters =
  service :: string
  plugin_parameters :: 'p

text \<open>
  \<open>HandleRequest\<close> receives the request and the reply by reference and returns nothing: the
  handler is a function from both to both.
\<close>

record 'p BasePlugin =
  GetDescriptor :: string
  HandleRequest :: "'p RouteParameters \<Rightarrow> Reply \<Rightarrow> 'p RouteParameters \<times> Reply"

subsection \<open>The state of the dispatcher\<close>

text \<open>
  Plugins are held by pointer. A pointer is an address; \<open>objects\<close> is the free store, giving
  the plugin object that lives at an address, and \<open>delete\<close> removes the object from it.
  \<open>plugin_map\<close> is the registry, an associative container with unique keys. \<open>logger\<close> holds
  the lines written to the log. \<open>handled\<close> records, in order, the address of every plugin
  whose handler has been invoked; it is there to count invocations and the code has no such
  field.
\<close>

type_synonym pointer = nat

record 'p OSRM =
  plugin_map :: "string \<rightharpoonup> pointer"
  objects :: "pointer \<rightharpoonup> 'p BasePlugin"
  logger :: "string list"
  handled :: "pointer list"

text \<open>
  Reading through or deleting a pointer at which no object lives has undefined behaviour;
  the model stops there with a fault.
\<close>

datatype fault = InvalidPointer

text \<open>\<open>emplace\<close> on a container with unique keys inserts only when the key is absent.\<close>

definition emplace :: "'k \<Rightarrow> 'v \<Rightarrow> ('k \<rightharpoonup> 'v) \<Rightarrow> ('k \<rightharpoonup> 'v)" where
  "emplace k v m = (if m k = None then m(k \<mapsto> v) else m)"

subsection \<open>RegisterPlugin\<close>

text \<open>
  The steps of the function in order: the log line (reading the descriptor through the
  pointer), the lookup, the \<open>delete\<close> of the plugin found under the descriptor, and the
  \<open>emplace\<close>, which reads the descriptor through the pointer once more.
\<close>

definition RegisterPlugin :: "'p OSRM \<Rightarrow> pointer \<Rightarrow> fault + 'p OSRM" where
  "RegisterPlugin s plugin =
     (case objects s plugin of
        None \<Rightarrow> Inl InvalidPointer
      | Some p \<Rightarrow>
          let s1 = s\<lparr> logger := logger s @ [''loaded plugin: '' @ GetDescriptor p] \<rparr> in
          (case plugin_map s1 (GetDescriptor p) of
             None \<Rightarrow>
               Inr (s1\<lparr> plugin_map := emplace (GetDescriptor p) plugin (plugin_map s1) \<rparr>)
           | Some old \<Rightarrow>
               (case objects s1 old of
                  None \<Rightarrow> Inl InvalidPointer
                | Some _ \<Rightarrow>
                    let s2 = s1\<lparr> objects := (objects s1)(old := None) \<rparr> in
                    (case objects s2 plugin of
                       None \<Rightarrow> Inl InvalidPointer
                     | Some p' \<Rightarrow>
                         Inr (s2\<lparr> plugin_map :=
                                    emplace (GetDescriptor p') plugin (plugin_map s2) \<rparr>)))))"

subsection \<open>RunQuery\<close>

text \<open>
  \<open>http::Reply::stockReply\<close> is declared in a header that is not among the sources at hand;
  it is the parameter \<open>stockReply\<close>, a function of the status alone. The result is the state
  with the request and the reply as the call leaves them.
\<close>

definition RunQuery ::
  "(status_type \<Rightarrow> Reply) \<Rightarrow> 'p OSRM \<Rightarrow> 'p RouteParameters \<Rightarrow> Reply \<Rightarrow>
     fault + ('p OSRM \<times> 'p RouteParameters \<times> Reply)" where
  "RunQuery stockReply s route_parameters reply =
     (case plugin_map s (service route_parameters) of
        Some plugin \<Rightarrow>
          let reply1 = reply\<lparr> status := ok \<rparr> in
          (case objects s plugin of
             None \<Rightarrow> Inl InvalidPointer
           | Some p \<Rightarrow>
               let (route_parameters', reply') = HandleRequest p route_parameters reply1
               in Inr (s\<lparr> handled := handled s @ [plugin] \<rparr>, route_parameters', reply'))
      | None \<Rightarrow> Inr (s, route_parameters, stockReply badRequest))"

section \<open>Search working storage (DataStructures/SearchEngineData.h)\<close>

text \<open>
  The header declares six heap pointers, one per thread, and three member functions; their
  bodies and the heap class are not among the sources at hand. A heap is kept as its
  capacity in node identities, its pending entries and its visited entries; an entry is a
  node, its weight and the parent recorded for it. The record below is the storage as one
  thread sees it. \<open>allocations\<close> counts the heaps allocated so far; it is there to observe
  reallocation.
\<close>

type_synonym NodeID = "32 word"

record QueryHeap =
  capacity :: "32 word"
  pending :: "(NodeID \<times> 32 word \<times> NodeID) list"
  visited :: "(NodeID \<times> 32 word \<times> NodeID) list"

record SearchEngineData =
  forwardHeap :: "QueryHeap option"
  backwardHeap :: "QueryHeap option"
  forwardHeap2 :: "QueryHeap option"
  backwardHeap2 :: "QueryHeap option"
  forwardHeap3 :: "QueryHeap option"
  backwardHeap3 :: "QueryHeap option"
  allocations :: nat

text \<open>
  Modelled from the spec: the constructor of the heap class, which is missing from the
  sources. A new heap is sized for the given number of node identities and has no entry.
\<close>

definition new_QueryHeap :: "32 word \<Rightarrow> QueryHeap" where
  "new_QueryHeap number_of_nodes =
     \<lparr> capacity = number_of_nodes, pending = [], visited = [] \<rparr>"

text \<open>
  Modelled from the spec: \<open>Clear\<close> of the heap class, which is missing from the sources. It
  drops the pending and the visited entries and keeps the storage.
\<close>

definition Clear :: "QueryHeap \<Rightarrow> QueryHeap" where
  "Clear h = h\<lparr> pending := [], visited := [] \<rparr>"

text \<open>
  Modelled from the spec: what the three member functions do to one heap pointer; their
  bodies are missing from the sources. A heap that does not exist is allocated for
  \<open>number_of_nodes\<close>; one that exists is cleared in place, and allocated anew when
  \<open>number_of_nodes\<close> is beyond its capacity.
\<close>

definition InitializeOrClearHeap ::
  "32 word \<Rightarrow> QueryHeap option \<times> nat \<Rightarrow> QueryHeap option \<times> nat" where
  "InitializeOrClearHeap number_of_nodes slot =
     (case fst slot of
        None \<Rightarrow> (Some (new_QueryHeap number_of_nodes), Suc (snd slot))
      | Some h \<Rightarrow>
          if capacity h < number_of_nodes
          then (Some (new_QueryHeap number_of_nodes), Suc (snd slot))
          else (Some (Clear h), snd slot))"

text \<open>
  Modelled from the spec: the three member functions declared in the header, each on its
  own pair of a forward and a backward heap.
\<close>

definition InitializeOrClearFirstThreadLocalStorage ::
  "SearchEngineData \<Rightarrow> 32 word \<Rightarrow> SearchEngineData" where
  "InitializeOrClearFirstThreadLocalStorage s number_of_nodes =
     (let (f, a1) = InitializeOrClearHeap number_of_nodes (forwardHeap s, allocations s);
          (b, a2) = InitializeOrClearHeap number_of_nodes (backwardHeap s, a1)
      in s\<lparr> forwardHeap := f, backwardHeap := b, allocations := a2 \<rparr>)"

definition InitializeOrClearSecondThreadLocalStorage ::
  "SearchEngineData \<Rightarrow> 32 word \<Rightarrow> SearchEngineData" where
  "InitializeOrClearSecondThreadLocalStorage s number_of_nodes =
     (let (f, a1) = InitializeOrClearHeap number_of_nodes (forwardHeap2 s, allocations s);
          (b, a2) = InitializeOrClearHeap number_of_nodes (backwardHeap2 s, a1)
      in s\<lparr> forwardHeap2 := f, backwardHeap2 := b, allocations := a2 \<rparr>)"

definition InitializeOrClearThirdThreadLocalStorage ::
  "SearchEngineData \<Rightarrow> 32 word \<Rightarrow> SearchEngineData" where
  "InitializeOrClearThirdThreadLocalStorage s number_of_nodes =
     (let (f, a1) = InitializeOrClearHeap number_of_nodes (forwardHeap3 s, allocations s);
          (b, a2) = InitializeOrClearHeap number_of_nodes (backwardHeap3 s, a1)
      in s\<lparr> forwardHeap3 := f, backwardHeap3 := b, allocations := a2 \<rparr>)"

text \<open>
  The postcondition of one heap pointer after a call with \<open>number_of_nodes\<close>: the heap
  exists, has neither pending nor visited entries, and its capacity is \<open>number_of_nodes\<close>
  when it was allocated by the call and the capacity it had when it was kept.
  \<open>needs_allocation\<close> tells when the call has to allocate.
\<close>

definition needs_allocation :: "32 word \<Rightarrow> QueryHeap option \<Rightarrow> bool" where
  "needs_allocation number_of_nodes old =
     (case old of None \<Rightarrow> True | Some h \<Rightarrow> capacity h < number_of_nodes)"

definition initialized_or_cleared ::
  "32 word \<Rightarrow> QueryHeap option \<Rightarrow> QueryHeap option \<Rightarrow> bool" where
  "initialized_or_cleared number_of_nodes old new =
     (case new of
        None \<Rightarrow> False
      | Some h' \<Rightarrow>
          pending h' = [] \<and> visited h' = [] \<and>
          capacity h' = (case old of
                           None \<Rightarrow> number_of_nodes
                         | Some h \<Rightarrow> if capacity h < number_of_nodes then number_of_nodes
                                      else capacity h))"

section \<open>Example values\<close>

subsection \<open>Roads\<close>

definition motorway :: RoadClassification where
  "motorway = RoadClassification_of True False False MOTORWAY 2"

definition motorway_ramp :: RoadClassification where
  "motorway_ramp = RoadClassification_of True True False MOTORWAY_LINK 1"

definition trunk :: RoadClassification where
  "trunk = RoadClassification_of False False False TRUNK 2"

definition trunk_link :: RoadClassification where
  "trunk_link = RoadClassification_of False True False TRUNK_LINK 1"

definition primary :: RoadClassification where
  "primary = RoadClassification_of False False False PRIMARY 2"

definition secondary :: RoadClassification where
  "secondary = RoadClassification_of False False False SECONDARY 1"

definition main_residential :: RoadClassification where
  "main_residential = RoadClassification_of False False False MAIN_RESIDENTIAL 1"

definition side_residential :: RoadClassification where
  "side_residential = RoadClassification_of False False False SIDE_RESIDENTIAL 1"

definition connector :: RoadClassification where
  "connector = RoadClassification_of False False True CONNECTIVITY 1"

subsection \<open>A dispatcher with two plugins of the same descriptor\<close>

text \<open>
  The first plugin leaves the reply as it finds it, the second one writes the content. Both
  answer to \<open>hello\<close>; they live at the addresses 1 and 2.
\<close>

definition example_stockReply :: "status_type \<Rightarrow> Reply" where
  "example_stockReply st = \<lparr> status = st, content = ''stock reply'' \<rparr>"

definition hello_plugin :: "unit BasePlugin" where
  "hello_plugin = \<lparr> GetDescriptor = ''hello'', HandleRequest = Pair \<rparr>"

definition write_content ::
  "unit RouteParameters \<Rightarrow> Reply \<Rightarrow> unit RouteParameters \<times> Reply" where
  "write_content p r = (p, r\<lparr> content := ''second'' \<rparr>)"

definition hello_plugin2 :: "unit BasePlugin" where
  "hello_plugin2 = \<lparr> GetDescriptor = ''hello'', HandleRequest = write_content \<rparr>"

definition two_plugins :: "unit OSRM" where
  "two_plugins =
     \<lparr> plugin_map = Map.empty, objects = [1 \<mapsto> hello_plugin, 2 \<mapsto> hello_plugin2],
       logger = [], handled = [] \<rparr>"

definition first_registered :: "unit OSRM" where
  "first_registered =
     \<lparr> plugin_map = [''hello'' \<mapsto> 1],
       objects = [1 \<mapsto> hello_plugin, 2 \<mapsto> hello_plugin2],
       logger = [''loaded plugin: hello''], handled = [] \<rparr>"

definition second_registered :: "unit OSRM" where
  "second_registered =
     \<lparr> plugin_map = [''hello'' \<mapsto> 1],
       objects = [2 \<mapsto> hello_plugin2],
       logger = [''loaded plugin: hello'', ''loaded plugin: hello''], handled = [] \<rparr>"

definition hello_registered :: "unit OSRM" where
  "hello_registered =
     \<lparr> plugin_map = [''hello'' \<mapsto> 1], objects = [1 \<mapsto> hello_plugin],
       logger = [], handled = [] \<rparr>"

definition hello_request :: "unit RouteParameters" where
  "hello_request = \<lparr> service = ''hello'', plugin_parameters = () \<rparr>"

definition locate_request :: "unit RouteParameters" where
  "locate_request = \<lparr> service = ''locate'', plugin_parameters = () \<rparr>"

definition stale_reply :: Reply where
  "stale_reply = \<lparr> status = badRequest, content = ''stale'' \<rparr>"

subsection \<open>Search storage in use\<close>

definition used_storage :: SearchEngineData where
  "used_storage =
     \<lparr> forwardHeap = Some \<lparr> capacity = 10, pending = [(3, 7, 1)], visited = [(1, 0, 1)] \<rparr>,
       backwardHeap = Some \<lparr> capacity = 4, pending = [], visited = [(2, 0, 2)] \<rparr>,
       forwardHeap2 = Some \<lparr> capacity = 6, pending = [(5, 1, 5)], visited = [] \<rparr>,
       backwardHeap2 = Some \<lparr> capacity = 6, pending = [], visited = [] \<rparr>,
       forwardHeap3 = Some \<lparr> capacity = 4, pending = [], visited = [(0, 0, 0)] \<rparr>,
       backwardHeap3 = Some \<lparr> capacity = 5, pending = [(1, 2, 0)], visited = [] \<rparr>,
       allocations = 6 \<rparr>"

section \<open>Properties of the road classification\<close>

lemmas RoadPriorityClass_defs =
  MOTORWAY_def MOTORWAY_LINK_def TRUNK_def TRUNK_LINK_def PRIMARY_def PRIMARY_LINK_def
  SECONDARY_def SECONDARY_LINK_def TERTIARY_def TERTIARY_LINK_def MAIN_RESIDENTIAL_def
  SIDE_RESIDENTIAL_def ALLEY_def PARKING_def LINK_ROAD_def BIKE_PATH_def FOOT_PATH_def
  CONNECTIVITY_def

lemmas road_example_defs =
  motorway_def motorway_ramp_def trunk_def trunk_link_def primary_def secondary_def
  main_residential_def side_residential_def connector_def RoadClassification_of_def

text \<open>
  C9: a default-constructed classification has the class \<open>CONNECTIVITY\<close> (priority 31), is
  neither motorway-class nor link-class, has no lanes, and is not a low-priority class: the
  flag \<open>may_be_ignored\<close> is independent of the priority and is not set by default.
\<close>

theorem RoadClassification_default_fields:
  "GetClass RoadClassification_default = CONNECTIVITY \<and>
   GetPriority RoadClassification_default = 31 \<and>
   \<not> IsMotorwayClass RoadClassification_default \<and>
   \<not> IsLinkClass RoadClassification_default \<and>
   GetNumberOfLanes RoadClassification_default = 0 \<and>
   \<not> IsLowPriorityRoadClass RoadClassification_default"
  by (simp add: RoadClassification_default_def GetClass_def GetPriority_def
      IsMotorwayClass_def IsLinkClass_def GetNumberOfLanes_def IsLowPriorityRoadClass_def
      CONNECTIVITY_def)

text \<open>
  \<open>upper_bound\<close> is monotone in the searched value, so \<open>strictlyLess\<close> can hold only from
  a numerically smaller priority, that of the more important road, to a larger one.
\<close>

lemma upper_bound_mono: "v \<le> w \<Longrightarrow> upper_bound ds v \<le> upper_bound ds w"
  by (induction ds) auto

lemma strictlyLess_only_towards_lower_priority:
  "strictlyLess lhs rhs \<Longrightarrow> GetPriority lhs < GetPriority rhs"
proof (rule ccontr)
  assume s: "strictlyLess lhs rhs" and "\<not> GetPriority lhs < GetPriority rhs"
  then have "GetPriority rhs \<le> GetPriority lhs" by simp
  then have "upper_bound dividers (GetPriority rhs) \<le> upper_bound dividers (GetPriority lhs)"
    by (rule upper_bound_mono)
  with s show False by (simp add: strictlyLess_def Let_def)
qed

text \<open>
  C2: \<open>strictlyLess lhs rhs\<close> is claimed to hold exactly when \<open>lhs\<close> lies in a band of lower
  priority than \<open>rhs\<close>, which is also what the comment above the function says (a city road
  is strictly less than a motorway). The function computes the opposite: it compares the
  positions found by \<open>upper_bound\<close> with \<open><\<close>, so a main residential road is not strictly less
  than a motorway, while the motorway is strictly less than the residential road. Moreover
  \<open>upper_bound\<close> puts a priority equal to a divider into the next band, so a trunk road is
  strictly less than its own link although \<open>TRUNK_LINK\<close> is the inclusive end of their band.
\<close>

theorem strictlyLess_reversed:
  "strictlyLess main_residential motorway = False \<and>
   strictlyLess motorway main_residential = True \<and>
   strictlyLess trunk trunk_link = True"
  by (simp add: strictlyLess_def dividers_def GetPriority_def road_example_defs
      RoadPriorityClass_defs)

text \<open>
  C6: \<open>isLinkTo link road\<close> holds exactly when \<open>link\<close> is link-class, \<open>road\<close> is not, and the
  two priorities are one of the five pairs of a link with its road: motorway, trunk,
  primary, secondary, tertiary. In every other case it is false.
\<close>

theorem isLinkTo_iff:
  "isLinkTo link road =
     (IsLinkClass link \<and> \<not> IsLinkClass road \<and>
      (GetPriority link, GetPriority road) \<in>
        {(ucast MOTORWAY_LINK, ucast MOTORWAY), (ucast TRUNK_LINK, ucast TRUNK),
         (ucast PRIMARY_LINK, ucast PRIMARY), (ucast SECONDARY_LINK, ucast SECONDARY),
         (ucast TERTIARY_LINK, ucast TERTIARY)})"
  by (simp add: isLinkTo_def RoadPriorityClass_defs)

text \<open>
  Instances: the trunk link is the link to the trunk road; it is not the link to the
  primary road, and the trunk road is not a link to itself.
\<close>

theorem isLinkTo_iff_witness:
  "IsLinkClass trunk_link \<and> \<not> IsLinkClass trunk \<and>
   GetPriority trunk_link = 3 \<and> GetPriority trunk = 2 \<and> GetPriority primary = 4 \<and>
   isLinkTo trunk_link trunk \<and> \<not> isLinkTo trunk_link primary \<and> \<not> isLinkTo trunk trunk"
  using isLinkTo_iff [of trunk_link trunk] isLinkTo_iff [of trunk_link primary]
    isLinkTo_iff [of trunk trunk]
  by (simp add: IsLinkClass_def GetPriority_def road_example_defs RoadPriorityClass_defs)

text \<open>
  C7: when \<open>in\<close> and the obvious candidate are both motorway-class and the compared
  candidate is a ramp, \<open>obviousByRoadClass\<close> returns true, whatever the distinction factor.
\<close>

theorem obviousByRoadClass_passing_ramp_on_motorway:
  assumes "IsMotorwayClass in_classification"
      and "IsMotorwayClass obvious_candidate"
      and "IsRampClass compare_candidate"
  shows "obviousByRoadClass factor in_classification obvious_candidate compare_candidate"
  using assms by (simp add: obviousByRoadClass_def)

text \<open>
  The scenario of C7: arriving on a motorway (priority 0), continuing on a motorway and
  passing a motorway link that is a ramp.
\<close>

theorem obviousByRoadClass_passing_ramp_on_motorway_witness:
  "IsMotorwayClass motorway \<and> GetPriority motorway = 0 \<and>
   IsRampClass motorway_ramp \<and> GetPriority motorway_ramp = 1 \<and>
   obviousByRoadClass (7 / 4) motorway motorway motorway_ramp"
proof -
  have m: "IsMotorwayClass motorway"
    by (simp add: IsMotorwayClass_def road_example_defs)
  have r: "IsRampClass motorway_ramp"
    by (simp add: IsRampClass_def road_example_defs)
  have p: "GetPriority motorway = 0 \<and> GetPriority motorway_ramp = 1"
    by (simp add: GetPriority_def road_example_defs RoadPriorityClass_defs)
  from obviousByRoadClass_passing_ramp_on_motorway [OF m m r, of "7 / 4"] m r p
  show ?thesis by simp
qed

text \<open>
  C10: \<open>obviousByRoadClass\<close> equals the same function without the conjunct \<open>!passing_ramp\<close>
  in the returned expression, for all inputs: \<open>has_high_priority\<close> requires the compared
  candidate not to be a ramp, \<open>passing_ramp\<close> requires it to be one.
\<close>

theorem obviousByRoadClass_passing_ramp_redundant:
  "obviousByRoadClass factor in_classification obvious_candidate compare_candidate =
   obviousByRoadClass_without_passing_ramp factor in_classification obvious_candidate
     compare_candidate"
  by (auto simp add: obviousByRoadClass_def obviousByRoadClass_without_passing_ramp_def
      Let_def)

text \<open>
  C3, as amended: the result of \<open>obviousByRoadClassOld\<close> depends on \<open>in\<close> only through
  whether \<open>in\<close> equals the obvious candidate (by \<open>operator==\<close>) and whether \<open>in\<close> is a
  low-priority class. Two classifications \<open>in1\<close>, \<open>in2\<close> that agree on both give the same
  result.
\<close>

theorem obviousByRoadClassOld_depends_on_in_through:
  assumes "RoadClassification_eq in1 obvious_candidate =
           RoadClassification_eq in2 obvious_candidate"
      and "IsLowPriorityRoadClass in1 = IsLowPriorityRoadClass in2"
  shows "obviousByRoadClassOld factor in1 obvious_candidate compare_candidate =
         obviousByRoadClassOld factor in2 obvious_candidate compare_candidate"
  using assms by (simp add: obviousByRoadClassOld_def Let_def)

text \<open>
  An instance: a secondary and a main residential road both differ from the primary road
  and neither is a low-priority class.
\<close>

theorem obviousByRoadClassOld_depends_on_in_through_witness:
  "RoadClassification_eq secondary primary = RoadClassification_eq main_residential primary \<and>
   IsLowPriorityRoadClass secondary = IsLowPriorityRoadClass main_residential \<and>
   obviousByRoadClassOld (7 / 4) secondary primary connector =
   obviousByRoadClassOld (7 / 4) main_residential primary connector"
proof -
  have e: "RoadClassification_eq secondary primary =
           RoadClassification_eq main_residential primary"
    by (simp add: RoadClassification_eq_def road_example_defs RoadPriorityClass_defs)
  have l: "IsLowPriorityRoadClass secondary = IsLowPriorityRoadClass main_residential"
    by (simp add: IsLowPriorityRoadClass_def road_example_defs)
  from obviousByRoadClassOld_depends_on_in_through [OF e l, of "7 / 4" connector] e l
  show ?thesis by simp
qed

text \<open>
  C3 as stated fails: the legacy variant compares \<open>in\<close> with the obvious candidate and reads
  the low-priority flag of \<open>in\<close>. Continuing on a primary road next to an ignorable connector
  is obvious when arriving on a primary road and not when arriving on a connector; next to
  a side residential road it is obvious when arriving on a primary road and not when
  arriving on a secondary one.
\<close>

theorem obviousByRoadClassOld_independent_of_in_counterexample:
  "obviousByRoadClassOld (7 / 4) primary primary connector \<noteq>
   obviousByRoadClassOld (7 / 4) connector primary connector \<and>
   obviousByRoadClassOld (7 / 4) primary primary side_residential \<noteq>
   obviousByRoadClassOld (7 / 4) secondary primary side_residential"
  by (simp add: obviousByRoadClassOld_def Let_def IsLinkClass_def IsLowPriorityRoadClass_def
      RoadClassification_eq_def GetPriority_def road_example_defs RoadPriorityClass_defs)

section \<open>Properties of the dispatcher\<close>

lemmas dispatcher_example_defs =
  example_stockReply_def hello_plugin_def hello_plugin2_def write_content_def
  two_plugins_def first_registered_def second_registered_def hello_registered_def
  hello_request_def locate_request_def stale_reply_def

text \<open>
  Registering two distinct live plugins of one descriptor that is not yet registered: both
  calls return, the entry holds the first pointer, and the first object is gone.
\<close>

lemma RegisterPlugin_twice_general:
  assumes "objects s p1 = Some a" and "objects s p2 = Some b" and "p1 \<noteq> p2"
      and "GetDescriptor a = d" and "GetDescriptor b = d"
      and "plugin_map s d = None"
  shows "\<exists>s1 s2. RegisterPlugin s p1 = Inr s1 \<and> RegisterPlugin s1 p2 = Inr s2 \<and>
           plugin_map s2 d = Some p1 \<and> objects s2 p1 = None \<and> objects s2 p2 = Some b"
  using assms by (simp add: RegisterPlugin_def emplace_def Let_def)

text \<open>
  C1: after registering two plugins of the same descriptor the registry is claimed to hold
  the second one under that descriptor. The function deletes the plugin found under the
  descriptor and then calls \<open>emplace\<close>, which does not insert because the key is still
  present. Starting from an empty registry, the entry for \<open>hello\<close> still holds the address
  of the first plugin, whose object has been destroyed; the second plugin is alive and not
  registered, and a query for \<open>hello\<close> reads through the dangling pointer.
\<close>

theorem RegisterPlugin_twice_keeps_first:
  "RegisterPlugin two_plugins 1 = Inr first_registered \<and>
   RegisterPlugin first_registered 2 = Inr second_registered \<and>
   plugin_map second_registered ''hello'' = Some 1 \<and>
   objects second_registered 1 = None \<and>
   objects second_registered 2 = Some hello_plugin2 \<and>
   RunQuery example_stockReply second_registered hello_request stale_reply =
     Inl InvalidPointer"
proof -
  have a: "RegisterPlugin two_plugins 1 = Inr first_registered"
    by (simp add: RegisterPlugin_def emplace_def dispatcher_example_defs Let_def)
  have b: "RegisterPlugin first_registered 2 = Inr second_registered"
    by (simp add: RegisterPlugin_def emplace_def dispatcher_example_defs Let_def)
  have c: "plugin_map second_registered ''hello'' = Some 1 \<and>
           objects second_registered 1 = None \<and>
           objects second_registered 2 = Some hello_plugin2"
    by (simp add: dispatcher_example_defs)
  have d: "RunQuery example_stockReply second_registered hello_request stale_reply =
             Inl InvalidPointer"
    by (simp add: RunQuery_def dispatcher_example_defs Let_def)
  from a b c d show ?thesis by simp
qed

text \<open>
  C4, as amended: for a request whose service name is registered with a live plugin,
  \<open>RunQuery\<close> first sets the status of the reply to \<open>ok\<close> and then invokes the handler of
  that plugin exactly once, on the reply so prepared. The reply after the call is exactly
  what the handler returned; the dispatcher writes nothing after the handler, so a reply
  that the plugin marked \<open>ok\<close> is not altered.
\<close>

theorem RunQuery_delegates:
  assumes "plugin_map s (service route_parameters) = Some plugin"
      and "objects s plugin = Some p"
  shows "RunQuery stockReply s route_parameters reply =
           Inr (s\<lparr> handled := handled s @ [plugin] \<rparr>,
                HandleRequest p route_parameters (reply\<lparr> status := ok \<rparr>))"
  using assms by (simp add: RunQuery_def Let_def split: prod.split)

text \<open>
  An instance: the plugin that leaves the reply as it finds it, called with a reply of
  status bad request. The reply comes back with the status \<open>ok\<close>.
\<close>

theorem RunQuery_delegates_witness:
  "plugin_map hello_registered (service hello_request) = Some 1 \<and>
   objects hello_registered 1 = Some hello_plugin \<and>
   RunQuery example_stockReply hello_registered hello_request stale_reply =
     Inr (hello_registered\<lparr> handled := [1] \<rparr>, hello_request,
          \<lparr> status = ok, content = ''stale'' \<rparr>)"
proof -
  have f: "plugin_map hello_registered (service hello_request) = Some 1"
    by (simp add: dispatcher_example_defs)
  have l: "objects hello_registered 1 = Some hello_plugin"
    by (simp add: dispatcher_example_defs)
  from RunQuery_delegates [OF f l, of example_stockReply stale_reply] f l
  show ?thesis by (simp add: dispatcher_example_defs)
qed

text \<open>
  C4 as stated fails: the dispatcher writes the status before it delegates. With a handler
  that leaves the reply untouched, the reply after \<open>RunQuery\<close> is not the one the handler
  produces from the reply that was passed in.
\<close>

theorem RunQuery_writes_nothing_counterexample:
  "RunQuery example_stockReply hello_registered hello_request stale_reply \<noteq>
     Inr (hello_registered\<lparr> handled := handled hello_registered @ [1] \<rparr>,
          HandleRequest hello_plugin hello_request stale_reply)"
  by (simp add: RunQuery_def Let_def dispatcher_example_defs)

text \<open>
  C5: for a request whose service name is not registered, \<open>RunQuery\<close> replaces the reply,
  whatever it held, by the stock reply for bad request, and invokes no handler: the state,
  with its record of invocations, and the request are unchanged.
\<close>

theorem RunQuery_unknown_service:
  assumes "plugin_map s (service route_parameters) = None"
  shows "RunQuery stockReply s route_parameters reply =
           Inr (s, route_parameters, stockReply badRequest)"
  using assms by (simp add: RunQuery_def)

theorem RunQuery_unknown_service_witness:
  "plugin_map hello_registered (service locate_request) = None \<and>
   RunQuery example_stockReply hello_registered locate_request stale_reply =
     Inr (hello_registered, locate_request,
          \<lparr> status = badRequest, content = ''stock reply'' \<rparr>)"
proof -
  have n: "plugin_map hello_registered (service locate_request) = None"
    by (simp add: dispatcher_example_defs)
  from RunQuery_unknown_service [OF n, of example_stockReply stale_reply] n
  show ?thesis by (simp add: dispatcher_example_defs)
qed

section \<open>Properties of the search storage\<close>

lemma InitializeOrClearHeap_post:
  "InitializeOrClearHeap n (old, a) = (new, a') \<Longrightarrow>
     initialized_or_cleared n old new \<and>
     a' = (if needs_allocation n old then Suc a else a)"
  by (auto simp add: InitializeOrClearHeap_def initialized_or_cleared_def
      needs_allocation_def new_QueryHeap_def Clear_def split: option.splits if_splits)

lemma InitializeOrClearFirstThreadLocalStorage_post:
  "let s' = InitializeOrClearFirstThreadLocalStorage s n in
     initialized_or_cleared n (forwardHeap s) (forwardHeap s') \<and>
     initialized_or_cleared n (backwardHeap s) (backwardHeap s') \<and>
     (\<not> needs_allocation n (forwardHeap s) \<and> \<not> needs_allocation n (backwardHeap s)
        \<longrightarrow> allocations s' = allocations s)"
  by (auto simp add: InitializeOrClearFirstThreadLocalStorage_def Let_def
      split: prod.splits dest!: InitializeOrClearHeap_post)

lemma InitializeOrClearSecondThreadLocalStorage_post:
  "let s' = InitializeOrClearSecondThreadLocalStorage s n in
     initialized_or_cleared n (forwardHeap2 s) (forwardHeap2 s') \<and>
     initialized_or_cleared n (backwardHeap2 s) (backwardHeap2 s') \<and>
     (\<not> needs_allocation n (forwardHeap2 s) \<and> \<not> needs_allocation n (backwardHeap2 s)
        \<longrightarrow> allocations s' = allocations s)"
  by (auto simp add: InitializeOrClearSecondThreadLocalStorage_def Let_def
      split: prod.splits dest!: InitializeOrClearHeap_post)

lemma InitializeOrClearThirdThreadLocalStorage_post:
  "let s' = InitializeOrClearThirdThreadLocalStorage s n in
     initialized_or_cleared n (forwardHeap3 s) (forwardHeap3 s') \<and>
     initialized_or_cleared n (backwardHeap3 s) (backwardHeap3 s') \<and>
     (\<not> needs_allocation n (forwardHeap3 s) \<and> \<not> needs_allocation n (backwardHeap3 s)
        \<longrightarrow> allocations s' = allocations s)"
  by (auto simp add: InitializeOrClearThirdThreadLocalStorage_def Let_def
      split: prod.splits dest!: InitializeOrClearHeap_post)

text \<open>
  C8: after \<open>InitializeOrClearFirstThreadLocalStorage\<close> with \<open>number_of_nodes\<close>, both heaps
  of the first pair exist and hold no pending and no visited entry; a heap that did not
  exist, or whose capacity was below \<open>number_of_nodes\<close>, has the capacity \<open>number_of_nodes\<close>,
  and a heap that was large enough keeps its capacity. When neither heap had to be
  allocated the call allocates nothing. The same holds of the second and the third variant
  on their pairs.
\<close>

theorem InitializeOrClearThreadLocalStorage_post:
  "(let s' = InitializeOrClearFirstThreadLocalStorage s n in
      initialized_or_cleared n (forwardHeap s) (forwardHeap s') \<and>
      initialized_or_cleared n (backwardHeap s) (backwardHeap s') \<and>
      (\<not> needs_allocation n (forwardHeap s) \<and> \<not> needs_allocation n (backwardHeap s)
         \<longrightarrow> allocations s' = allocations s)) \<and>
   (let s' = InitializeOrClearSecondThreadLocalStorage s n in
      initialized_or_cleared n (forwardHeap2 s) (forwardHeap2 s') \<and>
      initialized_or_cleared n (backwardHeap2 s) (backwardHeap2 s') \<and>
      (\<not> needs_allocation n (forwardHeap2 s) \<and> \<not> needs_allocation n (backwardHeap2 s)
         \<longrightarrow> allocations s' = allocations s)) \<and>
   (let s' = InitializeOrClearThirdThreadLocalStorage s n in
      initialized_or_cleared n (forwardHeap3 s) (forwardHeap3 s') \<and>
      initialized_or_cleared n (backwardHeap3 s) (backwardHeap3 s') \<and>
      (\<not> needs_allocation n (forwardHeap3 s) \<and> \<not> needs_allocation n (backwardHeap3 s)
         \<longrightarrow> allocations s' = allocations s))"
  using InitializeOrClearFirstThreadLocalStorage_post [of s n]
    InitializeOrClearSecondThreadLocalStorage_post [of s n]
    InitializeOrClearThirdThreadLocalStorage_post [of s n]
  by blast

text \<open>
  An instance: storage whose six heaps exist and hold at least four nodes, initialized for
  four nodes. No heap has to be allocated, and the count of allocations stays at six.
\<close>

theorem InitializeOrClearThreadLocalStorage_post_witness:
  "\<not> needs_allocation 4 (forwardHeap used_storage) \<and>
   \<not> needs_allocation 4 (backwardHeap used_storage) \<and>
   \<not> needs_allocation 4 (forwardHeap2 used_storage) \<and>
   \<not> needs_allocation 4 (backwardHeap2 used_storage) \<and>
   \<not> needs_allocation 4 (forwardHeap3 used_storage) \<and>
   \<not> needs_allocation 4 (backwardHeap3 used_storage) \<and>
   initialized_or_cleared 4 (forwardHeap used_storage)
     (forwardHeap (InitializeOrClearFirstThreadLocalStorage used_storage 4)) \<and>
   initialized_or_cleared 4 (backwardHeap used_storage)
     (backwardHeap (InitializeOrClearFirstThreadLocalStorage used_storage 4)) \<and>
   allocations (InitializeOrClearFirstThreadLocalStorage used_storage 4) = 6 \<and>
   allocations (InitializeOrClearSecondThreadLocalStorage used_storage 4) = 6 \<and>
   allocations (InitializeOrClearThirdThreadLocalStorage used_storage 4) = 6"
proof -
  have h: "\<not> needs_allocation 4 (forwardHeap used_storage) \<and>
           \<not> needs_allocation 4 (backwardHeap used_storage) \<and>
           \<not> needs_allocation 4 (forwardHeap2 used_storage) \<and>
           \<not> needs_allocation 4 (backwardHeap2 used_storage) \<and>
           \<not> needs_allocation 4 (forwardHeap3 used_storage) \<and>
           \<not> needs_allocation 4 (backwardHeap3 used_storage)"
    by (simp add: needs_allocation_def used_storage_def)
  have a: "allocations used_storage = 6"
    by (simp add: used_storage_def)
  from InitializeOrClearThreadLocalStorage_post [of used_storage 4] h a
  show ?thesis by (simp add: Let_def)
qed

end
